theory Spec2Isabelle
  imports Main "HOL-Library.Product_Lexorder"
begin

section \<open>Python values and exceptions\<close>

text \<open>
  The exception classes that the calls of \<^verbatim>\<open>backup2db.py\<close> can raise. All of them derive from
  \<^verbatim>\<open>Exception\<close>, so the handler \<^verbatim>\<open>except Exception\<close> of \<^verbatim>\<open>is_backup_compatible\<close> catches
  each one. \<^verbatim>\<open>sqlite3.OperationalError\<close> is a subclass of \<^verbatim>\<open>sqlite3.DatabaseError\<close>, not the
  other way round: the handler \<^verbatim>\<open>except sqlite3.OperationalError\<close> lets a plain
  \<^verbatim>\<open>DatabaseError\<close> through.
\<close>

datatype py_exn =
    AttributeError
  | ValueError
  | OSError
  | InvalidFileException
  | OperationalError
  | DatabaseError

text \<open>
  The values \<^verbatim>\<open>plistlib.loads\<close> returns (strings, integers, booleans, byte strings, lists and
  dictionaries with string keys), and \<^verbatim>\<open>None\<close>, which \<^verbatim>\<open>dict.get\<close> returns for a missing key.
  Floating-point numbers and dates are not represented; the program treats them as it treats
  every other value that is not a string.
\<close>

datatype pyval =
    PyNone
  | PyStr string
  | PyInt int
  | PyBool bool
  | PyBytes string
  | PyList "pyval list"
  | PyDict "string \<Rightarrow> pyval option"

text \<open>\<^verbatim>\<open>info.get(key)\<close>: only a dictionary has the method.\<close>

fun py_get :: "pyval \<Rightarrow> string \<Rightarrow> py_exn + pyval" where
  "py_get (PyDict d) k = (case d k of None \<Rightarrow> Inr PyNone | Some v \<Rightarrow> Inr v)"
| "py_get _ k = Inl AttributeError"

section \<open>The built-ins \<^verbatim>\<open>int\<close> and \<^verbatim>\<open>str.split\<close>\<close>

text \<open>
  \<^verbatim>\<open>int(s)\<close> on a string, base 10. On text that is all ASCII: white space (tab, line feed,
  vertical tab, form feed, carriage return, space) around the number is dropped, one sign may
  lead, and the digits may be grouped by single underscores; anything else raises
  \<^verbatim>\<open>ValueError\<close>. So does a well-formed number with more digits than the interpreter's limit on
  conversions from text, 4300 by default; underscores, the sign and white space do not count
  as digits, leading zeros do.
\<close>

definition is_digit :: "char \<Rightarrow> bool" where
  "is_digit c = (of_char (CHR ''0'') \<le> (of_char c :: nat) \<and> (of_char c :: nat) \<le> of_char (CHR ''9''))"

definition digit_val :: "char \<Rightarrow> nat" where
  "digit_val c = of_char c - of_char (CHR ''0'')"

definition is_ascii :: "char \<Rightarrow> bool" where
  "is_ascii c = ((of_char c :: nat) < 128)"

definition int_max_str_digits :: nat where
  "int_max_str_digits = 4300"

definition py_isspace :: "char \<Rightarrow> bool" where
  "py_isspace c = (let n = (of_char c :: nat) in (9 \<le> n \<and> n \<le> 13) \<or> n = 32)"

definition py_strip :: "string \<Rightarrow> string" where
  "py_strip s = rev (dropWhile py_isspace (rev (dropWhile py_isspace s)))"

fun py_digits :: "nat \<Rightarrow> string \<Rightarrow> nat option" where
  "py_digits acc [] = Some acc"
| "py_digits acc (c # cs) =
     (if is_digit c then py_digits (10 * acc + digit_val c) cs
      else if c = CHR ''_'' then
        (case cs of
           [] \<Rightarrow> None
         | d # ds \<Rightarrow> if is_digit d then py_digits (10 * acc + digit_val d) ds else None)
      else None)"

definition py_unsigned :: "string \<Rightarrow> py_exn + nat" where
  "py_unsigned u =
     (case u of
        [] \<Rightarrow> Inl ValueError
      | c # cs \<Rightarrow>
          if is_digit c then
            (case py_digits (digit_val c) cs of
               None \<Rightarrow> Inl ValueError
             | Some n \<Rightarrow>
                 if int_max_str_digits < length (filter is_digit u) then Inl ValueError
                 else Inr n)
          else Inl ValueError)"

definition py_int_ascii :: "string \<Rightarrow> py_exn + int" where
  "py_int_ascii s =
     (case py_strip s of
        [] \<Rightarrow> Inl ValueError
      | c # cs \<Rightarrow>
          if c = CHR ''-'' then map_sum id (\<lambda>n. - int n) (py_unsigned cs)
          else if c = CHR ''+'' then map_sum id int (py_unsigned cs)
          else map_sum id int (py_unsigned (c # cs)))"

text \<open>
  On text with a character outside ASCII, \<^verbatim>\<open>int\<close> first maps every Unicode white space to a
  space and every Unicode decimal digit to its ASCII digit, by the tables of the interpreter's
  Unicode database. The tables are not part of the program: what \<^verbatim>\<open>int\<close> gives on such text is
  the parameter \<open>unicode\<close>.
\<close>

definition py_int :: "(string \<Rightarrow> py_exn + int) \<Rightarrow> string \<Rightarrow> py_exn + int" where
  "py_int unicode s = (if list_all is_ascii s then py_int_ascii s else unicode s)"

text \<open>
  \<^verbatim>\<open>s.split(sep)\<close> with a one-character separator: every occurrence cuts, so the result has one
  more part than \<open>s\<close> has separators and is never empty.
\<close>

fun py_split :: "string \<Rightarrow> char \<Rightarrow> string list" where
  "py_split [] sep = [[]]"
| "py_split (c # cs) sep =
     (if c = sep then [] # py_split cs sep
      else (case py_split cs sep of [] \<Rightarrow> [[c]] | p # ps \<Rightarrow> (c # p) # ps))"

text \<open>
  The number a string of decimal digits denotes, by place value: the reading of a ``numeric
  component'' against which \<open>py_int\<close> is compared.
\<close>

definition numeric :: "string \<Rightarrow> bool" where
  "numeric s = (s \<noteq> [] \<and> list_all is_digit s)"

definition decimal_value :: "string \<Rightarrow> nat" where
  "decimal_value s = (\<Sum>i < length s. digit_val (rev s ! i) * 10 ^ i)"

section \<open>\<^verbatim>\<open>class iOSVersion\<close>\<close>

text \<open>
  An instance of the frozen dataclass. \<^verbatim>\<open>__init__\<close> assigns the three fields only when its first
  argument is a string; for any other argument it assigns nothing and the instance has no
  attributes at all: that instance is \<open>Unset\<close>, and reading a field of it raises
  \<^verbatim>\<open>AttributeError\<close>. The first argument of \<open>iOSVersion_init\<close> is the parameter of \<open>py_int\<close>.
\<close>

datatype iOSVersion = Version int int int | Unset

fun iOSVersion_init :: "(string \<Rightarrow> py_exn + int) \<Rightarrow> pyval \<Rightarrow> py_exn + iOSVersion" where
  "iOSVersion_init u (PyStr s) =
     (let parts = py_split s (CHR ''.'') in
      case py_int u (parts ! 0) of
        Inl e \<Rightarrow> Inl e
      | Inr mj \<Rightarrow>
          (case (if length parts > 1 then py_int u (parts ! 1) else Inr 0) of
             Inl e \<Rightarrow> Inl e
           | Inr mn \<Rightarrow>
               (case (if length parts > 2 then py_int u (parts ! 2) else Inr 0) of
                  Inl e \<Rightarrow> Inl e
                | Inr bf \<Rightarrow> Inr (Version mj mn bf))))"
| "iOSVersion_init u _ = Inr Unset"

text \<open>The tuple \<^verbatim>\<open>(v.major, v.minor, v.bugfix)\<close>.\<close>

fun fields :: "iOSVersion \<Rightarrow> py_exn + int \<times> int \<times> int" where
  "fields (Version mj mn bf) = Inr (mj, mn, bf)"
| "fields Unset = Inl AttributeError"

text \<open>
  Python compares two tuples at the first position where they differ; tuples that agree
  everywhere are equal, so neither is less nor greater.
\<close>

fun tuple_lt :: "int \<times> int \<times> int \<Rightarrow> int \<times> int \<times> int \<Rightarrow> bool" where
  "tuple_lt (a1, a2, a3) (b1, b2, b3) =
     (if a1 \<noteq> b1 then a1 < b1 else if a2 \<noteq> b2 then a2 < b2 else a3 < b3)"

fun tuple_gt :: "int \<times> int \<times> int \<Rightarrow> int \<times> int \<times> int \<Rightarrow> bool" where
  "tuple_gt (a1, a2, a3) (b1, b2, b3) =
     (if a1 \<noteq> b1 then a1 > b1 else if a2 \<noteq> b2 then a2 > b2 else a3 > b3)"

fun tuple_eq :: "int \<times> int \<times> int \<Rightarrow> int \<times> int \<times> int \<Rightarrow> bool" where
  "tuple_eq (a1, a2, a3) (b1, b2, b3) = (a1 = b1 \<and> a2 = b2 \<and> a3 = b3)"

text \<open>
  The comparison methods. Both arguments are instances of the class here, so the
  \<^verbatim>\<open>NotImplemented\<close> branches are not taken. The left tuple is built before the right one.
\<close>

definition compare_fields ::
  "(int \<times> int \<times> int \<Rightarrow> int \<times> int \<times> int \<Rightarrow> bool) \<Rightarrow> iOSVersion \<Rightarrow> iOSVersion \<Rightarrow> py_exn + bool" where
  "compare_fields cmp self other =
     (case fields self of
        Inl e \<Rightarrow> Inl e
      | Inr s \<Rightarrow> (case fields other of Inl e \<Rightarrow> Inl e | Inr t \<Rightarrow> Inr (cmp s t)))"

definition iOSVersion_eq :: "iOSVersion \<Rightarrow> iOSVersion \<Rightarrow> py_exn + bool" where
  "iOSVersion_eq self other = compare_fields tuple_eq self other"

definition iOSVersion_lt :: "iOSVersion \<Rightarrow> iOSVersion \<Rightarrow> py_exn + bool" where
  "iOSVersion_lt self other = compare_fields tuple_lt self other"

definition iOSVersion_le :: "iOSVersion \<Rightarrow> iOSVersion \<Rightarrow> py_exn + bool" where
  "iOSVersion_le self other =
     (case iOSVersion_lt self other of
        Inl e \<Rightarrow> Inl e
      | Inr True \<Rightarrow> Inr True
      | Inr False \<Rightarrow> iOSVersion_eq self other)"

definition iOSVersion_gt :: "iOSVersion \<Rightarrow> iOSVersion \<Rightarrow> py_exn + bool" where
  "iOSVersion_gt self other = compare_fields tuple_gt self other"

definition iOSVersion_ge :: "iOSVersion \<Rightarrow> iOSVersion \<Rightarrow> py_exn + bool" where
  "iOSVersion_ge self other =
     (case iOSVersion_gt self other of
        Inl e \<Rightarrow> Inl e
      | Inr True \<Rightarrow> Inr True
      | Inr False \<Rightarrow> iOSVersion_eq self other)"

definition TARGET_BACKUP_INFO_KEY :: string where
  "TARGET_BACKUP_INFO_KEY = ''Product Version''"

text \<open>
  The module computes the constant as \<^verbatim>\<open>iOSVersion("11.0")\<close>; lemma \<open>TARGET_BACKUP_MIN_VER_init\<close>
  below shows that this is the value.
\<close>

definition TARGET_BACKUP_MIN_VER :: iOSVersion where
  "TARGET_BACKUP_MIN_VER = Version 11 0 0"

section \<open>The backup directory: file system, property list, manifest database\<close>

text \<open>
  \<^verbatim>\<open>os.path.join(a, *p)\<close> on POSIX: a component that starts with the separator replaces what
  was joined so far; a separator is put in only where the path so far is neither empty nor
  already ends in one.
\<close>

definition join_step :: "string \<Rightarrow> string \<Rightarrow> string" where
  "join_step joined b =
     (if b \<noteq> [] \<and> hd b = CHR ''/'' then b
      else if joined = [] \<or> last joined = CHR ''/'' then joined @ b
      else joined @ ''/'' @ b)"

definition os_path_join :: "string \<Rightarrow> string list \<Rightarrow> string" where
  "os_path_join a p = foldl join_step a p"

text \<open>
  Modelled from the spec: the table \<^verbatim>\<open>Files(fileID TEXT, domain TEXT, relativePath TEXT)\<close> of
  \<^verbatim>\<open>Manifest.db\<close>, whose declaration is not part of the program. A manifest entry is a row of it,
  with its three text columns.
\<close>

record manifest_entry =
  fileID :: string
  domain :: string
  relativePath :: string

text \<open>
  What the program can observe of a database file: \<^verbatim>\<open>sqlite3.connect\<close> raises, or the connection
  is made and \<^verbatim>\<open>cur.execute\<close> raises on the program's queries (the file has no such table, or is
  no database), or the table is there. The list gives the rows in the order in which the engine
  returns them.
\<close>

datatype manifest =
    ConnectFails py_exn
  | ExecuteFails py_exn
  | Files "manifest_entry list"

text \<open>
  The world outside the program, which it only reads: \<^verbatim>\<open>os.path.abspath\<close> (it depends on the
  working directory), which paths exist, what opening, reading and \<^verbatim>\<open>plistlib.loads\<close> give for a
  path, the database behind a path, and what \<^verbatim>\<open>int\<close> gives on text outside ASCII.
\<close>

record env =
  int_unicode :: "string \<Rightarrow> py_exn + int"
  os_path_abspath :: "string \<Rightarrow> string"
  fs_exists :: "string \<Rightarrow> bool"
  read_plist :: "string \<Rightarrow> py_exn + pyval"
  sqlite_db :: "string \<Rightarrow> manifest"

text \<open>\<^verbatim>\<open>os.path.exists\<close>: the empty path never exists.\<close>

definition os_path_exists :: "env \<Rightarrow> string \<Rightarrow> bool" where
  "os_path_exists e p = (p \<noteq> [] \<and> fs_exists e p)"

section \<open>Effects\<close>

text \<open>
  Every \<^verbatim>\<open>print\<close> of the program, with the values it formats into the line. The trace of a run
  lists them in order; it also records each entry into one of the two resolvers.
\<close>

datatype message =
    InfoPlistNotFound string
  | InfoPlistError py_exn
  | ManifestNotFound string
  | CouldNotQueryManifest
  | ExpectedFileNotFound string
  | NoFilesFound string
  | BackupNotSupported "iOSVersion option"
  | FoundFile string
  | FileNotFound
  | FoundPaths "(string \<times> string) list"
  | NoPathsNotFound

datatype resolver = PathResolver | BundleResolver

datatype event = Print message | Enter resolver

text \<open>A call yields its trace and either the exception it raises or the value it returns.\<close>

type_synonym 'a run = "event list \<times> (py_exn + 'a)"

section \<open>\<^verbatim>\<open>is_backup_compatible\<close>\<close>

definition is_backup_compatible :: "env \<Rightarrow> string \<Rightarrow> (bool \<times> iOSVersion option) run" where
  "is_backup_compatible e backup_dir =
     (let backup_info = os_path_abspath e (os_path_join backup_dir [''Info.plist'']) in
      if \<not> os_path_exists e backup_info then
        ([Print (InfoPlistNotFound backup_dir)], Inr (False, None))
      else
        (case read_plist e backup_info of
           Inl x \<Rightarrow> ([Print (InfoPlistError x)], Inr (False, None))
         | Inr info \<Rightarrow>
             (case py_get info TARGET_BACKUP_INFO_KEY of
                Inl x \<Rightarrow> ([], Inl x)
              | Inr v \<Rightarrow>
                  (case iOSVersion_init (int_unicode e) v of
                     Inl x \<Rightarrow> ([], Inl x)
                   | Inr target_version \<Rightarrow>
                       (case iOSVersion_le TARGET_BACKUP_MIN_VER target_version of
                          Inl x \<Rightarrow> ([], Inl x)
                        | Inr r \<Rightarrow> ([], Inr (r, Some target_version)))))))"

section \<open>\<^verbatim>\<open>find_ios_backup_file\<close>\<close>

text \<open>
  \<^verbatim>\<open>SELECT fileID FROM Files WHERE relativePath = ? OR domain || '-' || relativePath = ?\<close>,
  both parameters bound to the same value.
\<close>

definition select_fileID :: "manifest_entry list \<Rightarrow> string \<Rightarrow> string list" where
  "select_fileID tbl q =
     map fileID (filter (\<lambda>r. relativePath r = q \<or> domain r @ ''-'' @ relativePath r = q) tbl)"

definition find_ios_backup_file :: "env \<Rightarrow> string \<Rightarrow> string \<Rightarrow> string option run" where
  "find_ios_backup_file e backup_dir ios_path =
     (let manifest_db = os_path_abspath e (os_path_join backup_dir [''Manifest.db'']) in
      if \<not> os_path_exists e manifest_db then
        ([Enter PathResolver, Print (ManifestNotFound backup_dir)], Inr None)
      else
        (case sqlite_db e manifest_db of
           ConnectFails x \<Rightarrow> ([Enter PathResolver], Inl x)
         | ExecuteFails x \<Rightarrow>
             if x = OperationalError then
               ([Enter PathResolver, Print CouldNotQueryManifest], Inr None)
             else ([Enter PathResolver], Inl x)
         | Files tbl \<Rightarrow>
             (case select_fileID tbl ios_path of
                [] \<Rightarrow> ([Enter PathResolver], Inr None)
              | file_id # _ \<Rightarrow>
                  (let subdir = take 2 file_id;
                       file_path = os_path_join backup_dir [subdir, file_id]
                   in if os_path_exists e file_path then
                        ([Enter PathResolver], Inr (Some file_path))
                      else
                        ([Enter PathResolver, Print (ExpectedFileNotFound file_path)], Inr None)))))"

section \<open>\<^verbatim>\<open>get_app_folders_from_backup\<close>\<close>

text \<open>\<^verbatim>\<open>SELECT fileID, relativePath FROM Files WHERE domain = ?\<close>.\<close>

definition select_by_domain :: "manifest_entry list \<Rightarrow> string \<Rightarrow> (string \<times> string) list" where
  "select_by_domain tbl d =
     map (\<lambda>r. (fileID r, relativePath r)) (filter (\<lambda>r. domain r = d) tbl)"

definition get_app_folders_from_backup ::
  "env \<Rightarrow> string \<Rightarrow> string \<Rightarrow> (string \<times> string) list option run" where
  "get_app_folders_from_backup e backup_dir bundle_identifier =
     (let manifest_db = os_path_abspath e (os_path_join backup_dir [''Manifest.db'']) in
      if \<not> os_path_exists e manifest_db then
        ([Enter BundleResolver, Print (ManifestNotFound backup_dir)], Inr None)
      else
        (case sqlite_db e manifest_db of
           ConnectFails x \<Rightarrow> ([Enter BundleResolver], Inl x)
         | ExecuteFails x \<Rightarrow> ([Enter BundleResolver], Inl x)
         | Files tbl \<Rightarrow>
             (let rows = select_by_domain tbl bundle_identifier;
                  rows = (if rows = [] then
                            (let prefixed = ''AppDomain-'' @ bundle_identifier
                             in select_by_domain tbl prefixed)
                          else rows)
              in if rows = [] then
                   ([Enter BundleResolver, Print (NoFilesFound bundle_identifier)], Inr None)
                 else
                   ([Enter BundleResolver],
                    Inr (Some (map (\<lambda>(file_id, rel_path).
                                 (os_path_join backup_dir [take 2 file_id, file_id], rel_path))
                               rows))))))"

section \<open>\<^verbatim>\<open>main\<close>\<close>

text \<open>
  The parsed command line: \<^verbatim>\<open>-d\<close>, \<^verbatim>\<open>-b\<close> (both default to \<^verbatim>\<open>None\<close>) and \<^verbatim>\<open>--backup-path\<close>.
  The field \<open>bundle_arg\<close> is \<^verbatim>\<open>args.bundle\<close>.
\<close>

record args =
  path :: "string option"
  bundle_arg :: "string option"
  search_path :: string

text \<open>
  How a run of \<^verbatim>\<open>main\<close> ends: \<^verbatim>\<open>exit(n)\<close>, falling off the end of the function, or an exception
  that nothing catches. The interpreter turns the last two into the exit statuses 0 and 1.
\<close>

datatype outcome = Exited int | Returned | Raised py_exn

fun exit_code :: "outcome \<Rightarrow> int" where
  "exit_code (Exited n) = n"
| "exit_code Returned = 0"
| "exit_code (Raised x) = 1"

definition main :: "env \<Rightarrow> args \<Rightarrow> event list \<times> outcome" where
  "main e a =
     (case is_backup_compatible e (search_path a) of
        (t0, Inl x) \<Rightarrow> (t0, Raised x)
      | (t0, Inr (result, ver)) \<Rightarrow>
          if \<not> result then (t0 @ [Print (BackupNotSupported ver)], Exited (- 2))
          else
            (case path a of
               Some ios_path \<Rightarrow>
                 (case find_ios_backup_file e (search_path a) ios_path of
                    (t1, Inl x) \<Rightarrow> (t0 @ t1, Raised x)
                  | (t1, Inr None) \<Rightarrow> (t0 @ t1 @ [Print FileNotFound], Exited (- 1))
                  | (t1, Inr (Some found)) \<Rightarrow>
                      if found \<noteq> [] then (t0 @ t1 @ [Print (FoundFile found)], Exited 0)
                      else (t0 @ t1 @ [Print FileNotFound], Exited (- 1)))
             | None \<Rightarrow>
                 (case bundle_arg a of
                    Some bundle_identifier \<Rightarrow>
                      (case get_app_folders_from_backup e (search_path a) bundle_identifier of
                         (t1, Inl x) \<Rightarrow> (t0 @ t1, Raised x)
                       | (t1, Inr None) \<Rightarrow> (t0 @ t1 @ [Print NoPathsNotFound], Exited (- 1))
                       | (t1, Inr (Some found)) \<Rightarrow>
                           if found \<noteq> [] then (t0 @ t1 @ [Print (FoundPaths found)], Exited 0)
                           else (t0 @ t1 @ [Print NoPathsNotFound], Exited (- 1)))
                  | None \<Rightarrow> (t0, Returned))))"

text \<open>The resolvers a trace shows to have been entered.\<close>

fun entered :: "event list \<Rightarrow> resolver list" where
  "entered [] = []"
| "entered (Print m # t) = entered t"
| "entered (Enter r # t) = r # entered t"

section \<open>A sample backup\<close>

text \<open>
  A backup directory \<^verbatim>\<open>/backup\<close> on which the definitions are run: three manifest entries, the
  stored file of the first one on disk and the others missing. The property list and the
  database are parameters, so that the same directory serves with a sound and with a damaged
  \<^verbatim>\<open>Info.plist\<close> or \<^verbatim>\<open>Manifest.db\<close>. All its text is ASCII, so \<open>sample_unicode\<close> is never
  consulted.
\<close>

definition sample_table :: "manifest_entry list" where
  "sample_table =
     [\<lparr>fileID = ''3d0d7e5fb2ce288813306e4d4636395e047a3d28'', domain = ''HomeDomain'',
       relativePath = ''Library/SMS/sms.db''\<rparr>,
      \<lparr>fileID = ''31bb7ba8914766d4ba40d6dfb6113c8b614be442'', domain = ''HomeDomain'',
       relativePath = ''Library/AddressBook/AddressBook.sqlitedb''\<rparr>,
      \<lparr>fileID = ''9f2c41aa07'', domain = ''AppDomain-com.facebook.Facebook'',
       relativePath = ''Library/Preferences/com.facebook.Facebook.plist''\<rparr>]"

definition sample_info :: "string \<Rightarrow> pyval" where
  "sample_info v = PyDict [''Device Name'' \<mapsto> PyStr ''iPhone'', ''Product Version'' \<mapsto> PyStr v]"

definition sample_unicode :: "string \<Rightarrow> py_exn + int" where
  "sample_unicode s = Inl ValueError"

definition sample_env :: "pyval \<Rightarrow> manifest \<Rightarrow> env" where
  "sample_env info db =
     \<lparr>int_unicode = sample_unicode,
      os_path_abspath = (\<lambda>p. p),
      fs_exists = (\<lambda>p. p = ''/backup/Info.plist'' \<or> p = ''/backup/Manifest.db''
                     \<or> p = ''/backup/3d/3d0d7e5fb2ce288813306e4d4636395e047a3d28''),
      read_plist = (\<lambda>p. if p = ''/backup/Info.plist'' then Inr info else Inl OSError),
      sqlite_db = (\<lambda>p. if p = ''/backup/Manifest.db'' then db else ConnectFails OperationalError)\<rparr>"

definition sample_args :: "string option \<Rightarrow> string option \<Rightarrow> args" where
  "sample_args p b = \<lparr>path = p, bundle_arg = b, search_path = ''/backup''\<rparr>"

section \<open>Parsing a version string\<close>

lemma is_digit_not_space: "is_digit c \<Longrightarrow> \<not> py_isspace c"
  by (auto simp: is_digit_def py_isspace_def Let_def)

lemma is_digit_not_punct:
  "is_digit c \<Longrightarrow> c \<noteq> CHR ''-'' \<and> c \<noteq> CHR ''+'' \<and> c \<noteq> CHR ''.'' \<and> c \<noteq> CHR ''_''"
  by (auto simp: is_digit_def)

lemma dropWhile_hd_id: "xs \<noteq> [] \<Longrightarrow> \<not> P (hd xs) \<Longrightarrow> dropWhile P xs = xs"
  by (cases xs) auto

lemma numeric_strip: "numeric s \<Longrightarrow> py_strip s = s"
proof -
  assume n: "numeric s"
  then have ne: "s \<noteq> []" and all: "\<forall>c \<in> set s. is_digit c"
    by (auto simp: numeric_def list_all_iff)
  have "hd s \<in> set s" "last s \<in> set s" using ne by auto
  then have h: "\<not> py_isspace (hd s)" and l: "\<not> py_isspace (last s)"
    using all is_digit_not_space by blast+
  have "dropWhile py_isspace s = s" using ne h by (rule dropWhile_hd_id)
  moreover have "dropWhile py_isspace (rev s) = rev s"
    using ne l by (intro dropWhile_hd_id) (auto simp: hd_rev)
  ultimately show ?thesis by (simp add: py_strip_def)
qed

lemma py_digits_all:
  "list_all is_digit cs \<Longrightarrow>
   py_digits acc cs = Some (foldl (\<lambda>a c. 10 * a + digit_val c) acc cs)"
  by (induction cs arbitrary: acc) auto

lemma decimal_value_snoc: "decimal_value (s @ [c]) = 10 * decimal_value s + digit_val c"
proof -
  have "decimal_value (s @ [c]) = (\<Sum>i < Suc (length s). digit_val ((c # rev s) ! i) * 10 ^ i)"
    by (simp add: decimal_value_def)
  also have "\<dots> = digit_val c + (\<Sum>i < length s. digit_val (rev s ! i) * 10 ^ Suc i)"
    by (subst sum.lessThan_Suc_shift) simp
  also have "\<dots> = digit_val c + 10 * decimal_value s"
    by (simp add: decimal_value_def sum_distrib_left mult.assoc mult.left_commute)
  finally show ?thesis by simp
qed

lemma foldl_decimal_value: "foldl (\<lambda>a c. 10 * a + digit_val c) 0 s = decimal_value s"
proof (induction s rule: rev_induct)
  case Nil
  show ?case by (simp add: decimal_value_def)
next
  case (snoc c s)
  then show ?case by (simp add: decimal_value_snoc)
qed

lemma is_digit_ascii: "is_digit c \<Longrightarrow> is_ascii c"
  by (auto simp: is_digit_def is_ascii_def)

lemma numeric_ascii: "numeric s \<Longrightarrow> list_all is_ascii s"
  using is_digit_ascii by (auto simp: numeric_def list_all_iff)

lemma numeric_digits: "numeric s \<Longrightarrow> filter is_digit s = s"
  by (simp add: numeric_def list_all_iff)

lemma py_unsigned_numeric:
  assumes n: "numeric s"
  shows "py_unsigned s =
    (if int_max_str_digits < length s then Inl ValueError else Inr (decimal_value s))"
proof -
  from n obtain c cs where s: "s = c # cs" and c: "is_digit c" and cs: "list_all is_digit cs"
    by (cases s) (auto simp: numeric_def)
  have "py_digits (digit_val c) cs = Some (foldl (\<lambda>a c. 10 * a + digit_val c) 0 (c # cs))"
    using cs by (simp add: py_digits_all)
  then have d: "py_digits (digit_val c) cs = Some (decimal_value s)"
    by (simp add: foldl_decimal_value s del: foldl_Cons)
  have "py_unsigned (c # cs) =
    (if int_max_str_digits < length (filter is_digit (c # cs)) then Inl ValueError
     else Inr (decimal_value s))"
    unfolding py_unsigned_def using c d by simp
  then show ?thesis
    using numeric_digits [OF n] by (simp add: s)
qed

lemma py_int_numeric_cases:
  assumes n: "numeric s"
  shows "py_int u s =
    (if int_max_str_digits < length s then Inl ValueError else Inr (int (decimal_value s)))"
proof -
  from n obtain c cs where s: "s = c # cs" and c: "is_digit c"
    by (cases s) (auto simp: numeric_def)
  have "py_int_ascii s = map_sum id int (py_unsigned s)"
    using numeric_strip [OF n] is_digit_not_punct [OF c] by (simp add: py_int_ascii_def s)
  then show ?thesis
    using numeric_ascii [OF n] by (simp add: py_int_def py_unsigned_numeric [OF n])
qed

lemma py_int_numeric:
  "numeric s \<Longrightarrow> length s \<le> int_max_str_digits \<Longrightarrow> py_int u s = Inr (int (decimal_value s))"
  by (simp add: py_int_numeric_cases)

lemma py_split_no_sep: "sep \<notin> set s \<Longrightarrow> py_split s sep = [s]"
  by (induction s) auto

lemma py_split_nonempty: "py_split s sep \<noteq> []"
  by (induction s) (auto split: list.splits)

lemma py_split_append: "sep \<notin> set x \<Longrightarrow> py_split (x @ sep # r) sep = x # py_split r sep"
  by (induction x) auto

lemma numeric_no_dot: "numeric s \<Longrightarrow> CHR ''.'' \<notin> set s"
  using is_digit_not_punct by (auto simp: numeric_def list_all_iff)

lemma TARGET_BACKUP_MIN_VER_init: "iOSVersion_init u (PyStr ''11.0'') = Inr TARGET_BACKUP_MIN_VER"
  by (simp add: TARGET_BACKUP_MIN_VER_def py_int_def py_int_ascii_def is_ascii_def int_max_str_digits_def py_strip_def py_isspace_def
      py_unsigned_def is_digit_def digit_val_def)

lemma numeric_replicate: "0 < n \<Longrightarrow> is_digit c \<Longrightarrow> numeric (replicate n c)"
  by (simp add: numeric_def list_all_iff)

lemma iOSVersion_init_too_long:
  assumes "numeric s" and "int_max_str_digits < length s"
  shows "iOSVersion_init u (PyStr s) = Inl ValueError"
  using assms by (simp add: py_split_no_sep numeric_no_dot py_int_numeric_cases)

text \<open>
  Claim C7, amended. Let \<open>X\<close>, \<open>Y\<close> and \<open>Z\<close> be non-empty strings of decimal digits, each of at
  most 4300 digits. Constructing a version from \<open>X\<close>, from \<open>X.Y\<close> and from \<open>X.Y.Z\<close> succeeds and
  gives the triple of the numbers the components denote, with 0 for each component that is
  missing.
\<close>

theorem iOSVersion_init_dotted:
  assumes "numeric X" and "numeric Y" and "numeric Z"
    and "length X \<le> 4300" and "length Y \<le> 4300" and "length Z \<le> 4300"
  shows "iOSVersion_init u (PyStr X) = Inr (Version (int (decimal_value X)) 0 0)
    \<and> iOSVersion_init u (PyStr (X @ ''.'' @ Y)) =
        Inr (Version (int (decimal_value X)) (int (decimal_value Y)) 0)
    \<and> iOSVersion_init u (PyStr (X @ ''.'' @ Y @ ''.'' @ Z)) =
        Inr (Version (int (decimal_value X)) (int (decimal_value Y)) (int (decimal_value Z)))"
  using assms
  by (simp add: py_split_no_sep py_split_append numeric_no_dot py_int_numeric
      int_max_str_digits_def)

theorem iOSVersion_init_dotted_witness:
  "numeric ''12'' \<and> numeric ''1'' \<and> numeric ''2''
   \<and> length ''12'' \<le> 4300 \<and> length ''1'' \<le> 4300 \<and> length ''2'' \<le> 4300
   \<and> iOSVersion_init sample_unicode (PyStr ''12'') = Inr (Version 12 0 0)
   \<and> iOSVersion_init sample_unicode (PyStr ''12.1'') = Inr (Version 12 1 0)
   \<and> iOSVersion_init sample_unicode (PyStr ''12.1.2'') = Inr (Version 12 1 2)"
proof -
  have n: "numeric ''12''" "numeric ''1''" "numeric ''2''"
    by (simp_all add: numeric_def is_digit_def)
  have l: "length ''12'' \<le> 4300" "length ''1'' \<le> 4300" "length ''2'' \<le> 4300"
    by simp_all
  have v: "decimal_value ''12'' = 12" "decimal_value ''1'' = 1" "decimal_value ''2'' = 2"
    by (simp_all add: decimal_value_def digit_val_def lessThan_Suc)
  from iOSVersion_init_dotted [OF n l, of sample_unicode] n l v show ?thesis by simp
qed

text \<open>
  Claim C7 as it is worded covers every numeric component. A component of 4301 digits is
  numeric, and \<^verbatim>\<open>int\<close> refuses it with \<^verbatim>\<open>ValueError\<close>: no version is constructed.
\<close>

theorem iOSVersion_init_digit_limit:
  "numeric (replicate 4301 (CHR ''1''))
   \<and> iOSVersion_init sample_unicode (PyStr (replicate 4301 (CHR ''1''))) = Inl ValueError"
proof -
  have d: "is_digit (CHR ''1'')" by (simp add: is_digit_def)
  have n: "numeric (replicate 4301 (CHR ''1''))"
    using d by (intro numeric_replicate) simp_all
  have l: "int_max_str_digits < length (replicate 4301 (CHR ''1''))"
    by (simp add: int_max_str_digits_def)
  from n iOSVersion_init_too_long [OF n l] show ?thesis by blast
qed

section \<open>The order on versions\<close>

lemma tuple_lt_lex: "tuple_lt s t = (s < t)"
  by (cases s; cases t) auto

lemma tuple_gt_lex: "tuple_gt s t = (t < s)"
  by (cases s; cases t) auto

lemma tuple_eq_iff: "tuple_eq s t = (s = t)"
  by (cases s; cases t) auto

lemma iOSVersion_eq_Version:
  "iOSVersion_eq (Version a b c) (Version d e f) = Inr ((a, b, c) = (d, e, f))"
  by (simp add: iOSVersion_eq_def compare_fields_def)

lemma iOSVersion_lt_Version:
  "iOSVersion_lt (Version a b c) (Version d e f) = Inr ((a, b, c) < (d, e, f))"
  unfolding iOSVersion_lt_def compare_fields_def by (simp only: fields.simps sum.case tuple_lt_lex)

lemma iOSVersion_gt_Version:
  "iOSVersion_gt (Version a b c) (Version d e f) = Inr ((d, e, f) < (a, b, c))"
  unfolding iOSVersion_gt_def compare_fields_def by (simp only: fields.simps sum.case tuple_gt_lex)

lemma iOSVersion_le_Version:
  "iOSVersion_le (Version a b c) (Version d e f) = Inr ((a, b, c) \<le> (d, e, f))"
proof (cases "(a, b, c) < (d, e, f)")
  case True
  then have "(a, b, c) \<le> (d, e, f)" by (rule less_imp_le)
  with True show ?thesis
    by (simp only: iOSVersion_le_def iOSVersion_lt_Version sum.case bool.case)
next
  case False
  then have "((a, b, c) = (d, e, f)) = ((a, b, c) \<le> (d, e, f))"
    using le_less by blast
  with False show ?thesis
    by (simp only: iOSVersion_le_def iOSVersion_lt_Version iOSVersion_eq_Version sum.case bool.case)
qed

lemma iOSVersion_ge_Version:
  "iOSVersion_ge (Version a b c) (Version d e f) = Inr ((d, e, f) \<le> (a, b, c))"
proof (cases "(d, e, f) < (a, b, c)")
  case True
  then have "(d, e, f) \<le> (a, b, c)" by (rule less_imp_le)
  with True show ?thesis
    by (simp only: iOSVersion_ge_def iOSVersion_gt_Version sum.case bool.case)
next
  case False
  then have "((a, b, c) = (d, e, f)) = ((d, e, f) \<le> (a, b, c))"
    using le_less by blast
  with False show ?thesis
    by (simp only: iOSVersion_ge_def iOSVersion_gt_Version iOSVersion_eq_Version sum.case bool.case)
qed

text \<open>
  Claim C8. On versions that carry their three fields, the five comparison methods return the
  comparisons of the triples (major, minor, bugfix) in the lexicographic order; \<^verbatim>\<open>__le__\<close> is
  reflexive, antisymmetric, transitive and total; and 11.0.0 \<open>\<le>\<close> 11.0.0 and 10.3.0 \<open>\<le>\<close> 11.0.0
  hold while 12.0.0 \<open>\<le>\<close> 11.0.0 does not.
\<close>

theorem iOSVersion_order_lexicographic:
  fixes a b c d e f g h i :: int
  shows "iOSVersion_eq (Version a b c) (Version d e f) = Inr ((a, b, c) = (d, e, f))
    \<and> iOSVersion_lt (Version a b c) (Version d e f) = Inr ((a, b, c) < (d, e, f))
    \<and> iOSVersion_le (Version a b c) (Version d e f) = Inr ((a, b, c) \<le> (d, e, f))
    \<and> iOSVersion_gt (Version a b c) (Version d e f) = Inr ((a, b, c) > (d, e, f))
    \<and> iOSVersion_ge (Version a b c) (Version d e f) = Inr ((a, b, c) \<ge> (d, e, f))
    \<and> iOSVersion_le (Version a b c) (Version a b c) = Inr True
    \<and> (iOSVersion_le (Version a b c) (Version d e f) = Inr True
        \<and> iOSVersion_le (Version d e f) (Version a b c) = Inr True
        \<longrightarrow> Version a b c = Version d e f)
    \<and> (iOSVersion_le (Version a b c) (Version d e f) = Inr True
        \<and> iOSVersion_le (Version d e f) (Version g h i) = Inr True
        \<longrightarrow> iOSVersion_le (Version a b c) (Version g h i) = Inr True)
    \<and> (iOSVersion_le (Version a b c) (Version d e f) = Inr True
        \<or> iOSVersion_le (Version d e f) (Version a b c) = Inr True)
    \<and> iOSVersion_le (Version 11 0 0) (Version 11 0 0) = Inr True
    \<and> iOSVersion_le (Version 10 3 0) (Version 11 0 0) = Inr True
    \<and> iOSVersion_le (Version 12 0 0) (Version 11 0 0) = Inr False"
proof -
  have antisym: "(a, b, c) \<le> (d, e, f) \<Longrightarrow> (d, e, f) \<le> (a, b, c) \<Longrightarrow> (a, b, c) = (d, e, f)"
    by (rule order_antisym)
  have trans: "(a, b, c) \<le> (d, e, f) \<Longrightarrow> (d, e, f) \<le> (g, h, i) \<Longrightarrow> (a, b, c) \<le> (g, h, i)"
    by (rule order_trans)
  have total: "(a, b, c) \<le> (d, e, f) \<or> (d, e, f) \<le> (a, b, c)"
    by (rule linear)
  show ?thesis
    unfolding iOSVersion_le_Version iOSVersion_lt_Version iOSVersion_gt_Version
      iOSVersion_ge_Version iOSVersion_eq_Version
    using antisym trans total by simp
qed

theorem iOSVersion_order_lexicographic_witness:
  "iOSVersion_le (Version 10 3 0) (Version 11 0 0) = Inr True
   \<and> iOSVersion_le (Version 11 0 0) (Version 12 1 2) = Inr True
   \<and> iOSVersion_le (Version 10 3 0) (Version 12 1 2) = Inr True
   \<and> iOSVersion_le (Version 11 0 0) (Version 11 0 0) = Inr True
   \<and> Version 11 0 0 = Version 11 0 0"
proof -
  have h1: "iOSVersion_le (Version 10 3 0) (Version 11 0 0) = Inr True"
    by (simp add: iOSVersion_le_def iOSVersion_lt_def compare_fields_def)
  have h2: "iOSVersion_le (Version 11 0 0) (Version 12 1 2) = Inr True"
    by (simp add: iOSVersion_le_def iOSVersion_lt_def compare_fields_def)
  have h3: "iOSVersion_le (Version 11 0 0) (Version 11 0 0) = Inr True"
    by (simp add: iOSVersion_le_def iOSVersion_lt_def iOSVersion_eq_def compare_fields_def)
  from iOSVersion_order_lexicographic [of 10 3 0 11 0 0 12 1 2] h1 h2
  have t: "iOSVersion_le (Version 10 3 0) (Version 12 1 2) = Inr True" by blast
  from iOSVersion_order_lexicographic [of 11 0 0 11 0 0 0 0 0] h3
  have a: "Version 11 0 0 = Version 11 0 0" by blast
  from h1 h2 h3 t a show ?thesis by blast
qed


section \<open>The version gate\<close>

lemma iOSVersion_init_10_0: "iOSVersion_init u (PyStr ''10.0'') = Inr (Version 10 0 0)"
  by (simp add: py_int_def py_int_ascii_def is_ascii_def int_max_str_digits_def py_strip_def
      py_isspace_def py_unsigned_def is_digit_def digit_val_def)

lemma iOSVersion_init_12_1_2: "iOSVersion_init u (PyStr ''12.1.2'') = Inr (Version 12 1 2)"
  by (simp add: py_int_def py_int_ascii_def is_ascii_def int_max_str_digits_def py_strip_def
      py_isspace_def py_unsigned_def is_digit_def digit_val_def)

lemma is_backup_compatible_parsed:
  assumes "os_path_exists e (os_path_abspath e (os_path_join backup_dir [''Info.plist'']))"
    and "read_plist e (os_path_abspath e (os_path_join backup_dir [''Info.plist''])) = Inr (PyDict d)"
    and "d ''Product Version'' = Some (PyStr s)"
    and "iOSVersion_init (int_unicode e) (PyStr s) = Inr (Version mj mn bf)"
  shows "is_backup_compatible e backup_dir =
           ([], Inr ((11, 0, 0) \<le> (mj, mn, bf), Some (Version mj mn bf)))"
  using assms
  by (simp add: is_backup_compatible_def TARGET_BACKUP_INFO_KEY_def TARGET_BACKUP_MIN_VER_def
      iOSVersion_le_Version del: iOSVersion_init.simps less_eq_prod_simp)

lemma sample_info_exists:
  "os_path_exists (sample_env i db)
     (os_path_abspath (sample_env i db) (os_path_join ''/backup'' [''Info.plist'']))"
  by (simp add: sample_env_def os_path_exists_def os_path_join_def join_step_def)

lemma sample_info_read:
  "read_plist (sample_env i db)
     (os_path_abspath (sample_env i db) (os_path_join ''/backup'' [''Info.plist''])) = Inr i"
  by (simp add: sample_env_def os_path_join_def join_step_def)

text \<open>
  Claim C6. The minimum supported version is the constant 11.0.0, the value of
  \<^verbatim>\<open>iOSVersion("11.0")\<close>. When \<^verbatim>\<open>Info.plist\<close> exists, loads to a dictionary and holds a string under
  \<^verbatim>\<open>"Product Version"\<close> that parses to the version (mj, mn, bf), the check prints nothing and
  returns that version together with the truth value of (11, 0, 0) \<open>\<le>\<close> (mj, mn, bf) in the
  lexicographic order on triples. For the string \<^verbatim>\<open>"10.0"\<close> the result is (False, Version 10 0 0),
  for \<^verbatim>\<open>"12.1.2"\<close> it is (True, Version 12 1 2).
\<close>

theorem is_backup_compatible_minimum:
  assumes "os_path_exists e (os_path_abspath e (os_path_join backup_dir [''Info.plist'']))"
    and "read_plist e (os_path_abspath e (os_path_join backup_dir [''Info.plist''])) = Inr (PyDict d)"
    and "d ''Product Version'' = Some (PyStr s)"
  shows "iOSVersion_init (int_unicode e) (PyStr ''11.0'') = Inr TARGET_BACKUP_MIN_VER
    \<and> TARGET_BACKUP_MIN_VER = Version 11 0 0
    \<and> (iOSVersion_init (int_unicode e) (PyStr s) = Inr (Version mj mn bf) \<longrightarrow>
         is_backup_compatible e backup_dir =
           ([], Inr ((11, 0, 0) \<le> (mj, mn, bf), Some (Version mj mn bf))))
    \<and> (s = ''10.0'' \<longrightarrow>
         is_backup_compatible e backup_dir = ([], Inr (False, Some (Version 10 0 0))))
    \<and> (s = ''12.1.2'' \<longrightarrow>
         is_backup_compatible e backup_dir = ([], Inr (True, Some (Version 12 1 2))))"
proof -
  have a: "iOSVersion_init (int_unicode e) (PyStr s) = Inr (Version mj mn bf) \<longrightarrow>
         is_backup_compatible e backup_dir =
           ([], Inr ((11, 0, 0) \<le> (mj, mn, bf), Some (Version mj mn bf)))"
    using is_backup_compatible_parsed [OF assms] by blast
  have b: "s = ''10.0'' \<longrightarrow>
         is_backup_compatible e backup_dir = ([], Inr (False, Some (Version 10 0 0)))"
    using is_backup_compatible_parsed [OF assms, of 10 0 0] iOSVersion_init_10_0 by simp
  have c: "s = ''12.1.2'' \<longrightarrow>
         is_backup_compatible e backup_dir = ([], Inr (True, Some (Version 12 1 2)))"
    using is_backup_compatible_parsed [OF assms, of 12 1 2] iOSVersion_init_12_1_2 by simp
  show ?thesis
    using a b c TARGET_BACKUP_MIN_VER_init by (simp only: TARGET_BACKUP_MIN_VER_def simp_thms)
qed

theorem is_backup_compatible_minimum_witness:
  "is_backup_compatible (sample_env (sample_info ''12.1.2'') (Files sample_table)) ''/backup''
     = ([], Inr (True, Some (Version 12 1 2)))
   \<and> is_backup_compatible (sample_env (sample_info ''10.0'') (Files sample_table)) ''/backup''
     = ([], Inr (False, Some (Version 10 0 0)))
   \<and> is_backup_compatible (sample_env (sample_info ''11.0'') (Files sample_table)) ''/backup''
     = ([], Inr (True, Some (Version 11 0 0)))"
proof -
  let ?d = "\<lambda>v. [''Device Name'' \<mapsto> PyStr ''iPhone'', ''Product Version'' \<mapsto> PyStr v]"
  have r: "\<And>v. read_plist (sample_env (sample_info v) (Files sample_table))
       (os_path_abspath (sample_env (sample_info v) (Files sample_table))
          (os_path_join ''/backup'' [''Info.plist'']))
     = Inr (PyDict (?d v))"
    by (simp add: sample_info_read) (simp add: sample_info_def)
  have k: "\<And>v. ?d v ''Product Version'' = Some (PyStr v)" by simp
  have i: "\<And>u. iOSVersion_init u (PyStr ''11.0'') = Inr (Version 11 0 0)"
    by (simp add: py_int_def py_int_ascii_def is_ascii_def int_max_str_digits_def py_strip_def
      py_isspace_def py_unsigned_def is_digit_def digit_val_def)
  from is_backup_compatible_minimum [OF sample_info_exists r k, of "''12.1.2''" 0 0 0]
    is_backup_compatible_minimum [OF sample_info_exists r k, of "''10.0''" 0 0 0]
    is_backup_compatible_minimum [OF sample_info_exists r k, of "''11.0''" 11 0 0] i
  show ?thesis by simp
qed

text \<open>
  Claim C3. The claim asks for the result (False, None), and no exception, whenever the
  \<^verbatim>\<open>"Product Version"\<close> key is missing or its value is not numeric. The function does not do
  that: on a well-formed \<^verbatim>\<open>Info.plist\<close> without the key it raises \<^verbatim>\<open>AttributeError\<close> (the version
  object was given \<^verbatim>\<open>None\<close> and has no fields to compare), and on the values \<^verbatim>\<open>"beta"\<close> and the
  empty string it raises \<^verbatim>\<open>ValueError\<close>.
\<close>

theorem is_backup_compatible_raises:
  "is_backup_compatible
       (sample_env (PyDict [''Device Name'' \<mapsto> PyStr ''iPhone'']) (Files sample_table)) ''/backup''
     = ([], Inl AttributeError)
   \<and> is_backup_compatible (sample_env (sample_info ''beta'') (Files sample_table)) ''/backup''
     = ([], Inl ValueError)
   \<and> is_backup_compatible (sample_env (sample_info []) (Files sample_table)) ''/backup''
     = ([], Inl ValueError)"
  by (simp add: is_backup_compatible_def sample_env_def sample_info_def os_path_exists_def
      os_path_join_def join_step_def TARGET_BACKUP_INFO_KEY_def TARGET_BACKUP_MIN_VER_def
      iOSVersion_le_def iOSVersion_lt_def compare_fields_def
      py_int_def py_int_ascii_def is_ascii_def int_max_str_digits_def py_strip_def py_isspace_def py_unsigned_def is_digit_def digit_val_def)

section \<open>The path resolver\<close>

lemma os_path_join_literal:
  assumes "backup_dir \<noteq> []" and "last backup_dir \<noteq> CHR ''/''"
    and "fid \<noteq> []" and "CHR ''/'' \<notin> set fid"
  shows "os_path_join backup_dir [take 2 fid, fid] = backup_dir @ ''/'' @ take 2 fid @ ''/'' @ fid"
proof -
  have t: "take 2 fid \<noteq> []" using assms(3) by simp
  have "hd (take 2 fid) \<in> set fid" "last (take 2 fid) \<in> set fid"
    using t by (metis in_set_takeD hd_in_set, metis in_set_takeD last_in_set)
  then have h: "hd (take 2 fid) \<noteq> CHR ''/''" and l: "last (take 2 fid) \<noteq> CHR ''/''"
    using assms(4) by auto
  have hf: "hd fid \<noteq> CHR ''/''" using assms(3,4) by (cases fid) auto
  have s1: "join_step backup_dir (take 2 fid) = backup_dir @ ''/'' @ take 2 fid"
    using assms(1,2) h t by (simp add: join_step_def)
  have "join_step (backup_dir @ ''/'' @ take 2 fid) fid = (backup_dir @ ''/'' @ take 2 fid) @ ''/'' @ fid"
    unfolding join_step_def using hf l t assms(3) by (simp del: take_eq_Nil)
  then show ?thesis using s1 by (simp add: os_path_join_def)
qed

lemma select_fileID_Cons:
  "select_fileID tbl q = fid # rest \<longleftrightarrow>
     (\<exists>pre r post. tbl = pre @ r # post
        \<and> (\<forall>x\<in>set pre. \<not> (relativePath x = q \<or> domain x @ ''-'' @ relativePath x = q))
        \<and> (relativePath r = q \<or> domain r @ ''-'' @ relativePath r = q)
        \<and> fid = fileID r \<and> rest = select_fileID post q)"
  unfolding select_fileID_def map_eq_Cons_conv filter_eq_Cons_iff by auto

lemma find_ios_backup_file_Files:
  assumes "os_path_exists e (os_path_abspath e (os_path_join backup_dir [''Manifest.db'']))"
    and "sqlite_db e (os_path_abspath e (os_path_join backup_dir [''Manifest.db''])) = Files tbl"
  shows "find_ios_backup_file e backup_dir q =
    (case select_fileID tbl q of
       [] \<Rightarrow> ([Enter PathResolver], Inr None)
     | fid # _ \<Rightarrow>
         if os_path_exists e (os_path_join backup_dir [take 2 fid, fid])
         then ([Enter PathResolver], Inr (Some (os_path_join backup_dir [take 2 fid, fid])))
         else ([Enter PathResolver,
                Print (ExpectedFileNotFound (os_path_join backup_dir [take 2 fid, fid]))], Inr None))"
  using assms by (simp add: find_ios_backup_file_def Let_def split: list.splits)

lemma sample_manifest_exists:
  "os_path_exists (sample_env i db) (os_path_abspath (sample_env i db) (os_path_join ''/backup'' [''Manifest.db'']))"
  by (simp add: sample_env_def os_path_exists_def os_path_join_def join_step_def)

lemma sample_manifest_db:
  "sqlite_db (sample_env i db) (os_path_abspath (sample_env i db) (os_path_join ''/backup'' [''Manifest.db''])) = db"
  by (simp add: sample_env_def os_path_join_def join_step_def)

lemma select_fileID_Nil:
  "select_fileID tbl q = [] \<longleftrightarrow>
     (\<forall>r\<in>set tbl. relativePath r \<noteq> q \<and> domain r @ ''-'' @ relativePath r \<noteq> q)"
  by (auto simp: select_fileID_def filter_empty_conv)

lemma find_ios_backup_file_Some_exists:
  "snd (find_ios_backup_file e backup_dir q) = Inr (Some f) \<Longrightarrow> os_path_exists e f"
  by (auto simp: find_ios_backup_file_def Let_def split: if_splits manifest.splits list.splits)

text \<open>
  Claim C1. Let \<^verbatim>\<open>Manifest.db\<close> exist in the backup directory and hold the table \<open>tbl\<close>. The
  function returns a path \<open>f\<close> exactly when \<open>tbl\<close> has a row \<open>r\<close> whose \<open>relativePath\<close> is the
  logical path, or whose \<open>domain\<close>, a hyphen and \<open>relativePath\<close> together are the logical path,
  such that no row before \<open>r\<close> satisfies either condition (only the first row returned is used),
  \<open>f\<close> is the backup directory joined with the first two characters of the \<open>fileID\<close> of \<open>r\<close> and
  with that \<open>fileID\<close>, and \<open>f\<close> exists on disk. The joined path is the text
  \<open>backupDir/fileID[:2]/fileID\<close> whenever the directory name is not empty and does not end in a
  slash and the identifier is not empty and has no slash.
\<close>

theorem find_ios_backup_file_first_match:
  assumes "os_path_exists e (os_path_abspath e (os_path_join backup_dir [''Manifest.db'']))"
    and "sqlite_db e (os_path_abspath e (os_path_join backup_dir [''Manifest.db''])) = Files tbl"
  shows "(snd (find_ios_backup_file e backup_dir q) = Inr (Some f) \<longleftrightarrow>
      (\<exists>pre r post. tbl = pre @ r # post
        \<and> (\<forall>x\<in>set pre. \<not> (relativePath x = q \<or> domain x @ ''-'' @ relativePath x = q))
        \<and> (relativePath r = q \<or> domain r @ ''-'' @ relativePath r = q)
        \<and> f = os_path_join backup_dir [take 2 (fileID r), fileID r]
        \<and> os_path_exists e f))
    \<and> (backup_dir \<noteq> [] \<and> last backup_dir \<noteq> CHR ''/'' \<and> fid \<noteq> [] \<and> CHR ''/'' \<notin> set fid \<longrightarrow>
        os_path_join backup_dir [take 2 fid, fid] = backup_dir @ ''/'' @ take 2 fid @ ''/'' @ fid)"
proof -
  have "snd (find_ios_backup_file e backup_dir q) = Inr (Some f) \<longleftrightarrow>
      (\<exists>fid rest. select_fileID tbl q = fid # rest
         \<and> f = os_path_join backup_dir [take 2 fid, fid] \<and> os_path_exists e f)"
    unfolding find_ios_backup_file_Files [OF assms]
    by (cases "select_fileID tbl q") auto
  also have "\<dots> \<longleftrightarrow> (\<exists>pre r post. tbl = pre @ r # post
        \<and> (\<forall>x\<in>set pre. \<not> (relativePath x = q \<or> domain x @ ''-'' @ relativePath x = q))
        \<and> (relativePath r = q \<or> domain r @ ''-'' @ relativePath r = q)
        \<and> f = os_path_join backup_dir [take 2 (fileID r), fileID r]
        \<and> os_path_exists e f)"
    unfolding select_fileID_Cons by blast
  finally show ?thesis using os_path_join_literal by blast
qed

theorem find_ios_backup_file_first_match_witness:
  "find_ios_backup_file (sample_env (sample_info ''12.1.2'') (Files sample_table)) ''/backup''
       ''Library/SMS/sms.db''
     = ([Enter PathResolver], Inr (Some ''/backup/3d/3d0d7e5fb2ce288813306e4d4636395e047a3d28''))
   \<and> (\<exists>r \<in> set sample_table. relativePath r = ''Library/SMS/sms.db''
        \<and> ''/backup/3d/3d0d7e5fb2ce288813306e4d4636395e047a3d28''
           = os_path_join ''/backup'' [take 2 (fileID r), fileID r])
   \<and> os_path_exists (sample_env (sample_info ''12.1.2'') (Files sample_table))
        ''/backup/3d/3d0d7e5fb2ce288813306e4d4636395e047a3d28''
   \<and> os_path_join ''/backup'' [take 2 ''3d0d7e5fb2ce288813306e4d4636395e047a3d28'',
                                ''3d0d7e5fb2ce288813306e4d4636395e047a3d28'']
       = ''/backup'' @ ''/'' @ take 2 ''3d0d7e5fb2ce288813306e4d4636395e047a3d28'' @ ''/''
         @ ''3d0d7e5fb2ce288813306e4d4636395e047a3d28''"
proof -
  let ?e = "sample_env (sample_info ''12.1.2'') (Files sample_table)"
  let ?f = "''/backup/3d/3d0d7e5fb2ce288813306e4d4636395e047a3d28''"
  let ?id = "''3d0d7e5fb2ce288813306e4d4636395e047a3d28''"
  have side: "''/backup'' \<noteq> [] \<and> last ''/backup'' \<noteq> CHR ''/'' \<and> ?id \<noteq> []
      \<and> CHR ''/'' \<notin> set ?id"
    by simp
  from find_ios_backup_file_first_match [OF sample_manifest_exists sample_manifest_db,
      of "sample_info ''12.1.2''" sample_table "''Library/SMS/sms.db''" ?f ?id] side
  have lit: "os_path_join ''/backup'' [take 2 ?id, ?id]
       = ''/backup'' @ ''/'' @ take 2 ?id @ ''/'' @ ?id"
    by blast
  have r: "find_ios_backup_file ?e ''/backup'' ''Library/SMS/sms.db'' = ([Enter PathResolver], Inr (Some ?f))"
    by (simp add: find_ios_backup_file_def sample_env_def sample_table_def select_fileID_def
        os_path_exists_def os_path_join_def join_step_def)
  then have s: "snd (find_ios_backup_file ?e ''/backup'' ''Library/SMS/sms.db'') = Inr (Some ?f)"
    by simp
  from find_ios_backup_file_first_match [OF sample_manifest_exists sample_manifest_db,
      of "sample_info ''12.1.2''" sample_table "''Library/SMS/sms.db''" ?f] s
  obtain pre r post where d: "sample_table = pre @ r # post"
     and m: "relativePath r = ''Library/SMS/sms.db'' \<or> domain r @ ''-'' @ relativePath r = ''Library/SMS/sms.db''"
     and f: "?f = os_path_join ''/backup'' [take 2 (fileID r), fileID r]"
     and x: "os_path_exists ?e ?f" 
    by blast
  have "r \<in> set sample_table" by (subst d) simp
  moreover have "\<forall>r \<in> set sample_table. domain r @ ''-'' @ relativePath r \<noteq> ''Library/SMS/sms.db''"
    by (simp add: sample_table_def)
  ultimately have "\<exists>r \<in> set sample_table. relativePath r = ''Library/SMS/sms.db'' \<and> ?f = os_path_join ''/backup'' [take 2 (fileID r), fileID r]"
    using m f by blast
  with r x lit show ?thesis by blast
qed


text \<open>
  The soft failures of the path resolver. It returns \<^verbatim>\<open>None\<close> and raises nothing when
  \<^verbatim>\<open>Manifest.db\<close> is absent, when the query raises \<^verbatim>\<open>sqlite3.OperationalError\<close> (as it does on a
  schema mismatch), when no row of the table matches the logical path, and when the stored file
  of the first matching row is not on disk; each case prints its own line (the third prints
  none). Whenever it returns a path, that path exists on disk.
\<close>

lemma find_ios_backup_file_null:
  "(\<not> os_path_exists e (os_path_abspath e (os_path_join backup_dir [''Manifest.db'']))
      \<longrightarrow> find_ios_backup_file e backup_dir q
            = ([Enter PathResolver, Print (ManifestNotFound backup_dir)], Inr None))
   \<and> (os_path_exists e (os_path_abspath e (os_path_join backup_dir [''Manifest.db'']))
      \<and> sqlite_db e (os_path_abspath e (os_path_join backup_dir [''Manifest.db'']))
          = ExecuteFails OperationalError
      \<longrightarrow> find_ios_backup_file e backup_dir q
            = ([Enter PathResolver, Print CouldNotQueryManifest], Inr None))
   \<and> (os_path_exists e (os_path_abspath e (os_path_join backup_dir [''Manifest.db'']))
      \<and> sqlite_db e (os_path_abspath e (os_path_join backup_dir [''Manifest.db''])) = Files tbl
      \<and> (\<forall>r\<in>set tbl. relativePath r \<noteq> q \<and> domain r @ ''-'' @ relativePath r \<noteq> q)
      \<longrightarrow> find_ios_backup_file e backup_dir q = ([Enter PathResolver], Inr None))
   \<and> (os_path_exists e (os_path_abspath e (os_path_join backup_dir [''Manifest.db'']))
      \<and> sqlite_db e (os_path_abspath e (os_path_join backup_dir [''Manifest.db''])) = Files tbl
      \<and> select_fileID tbl q = fid # rest
      \<and> \<not> os_path_exists e (os_path_join backup_dir [take 2 fid, fid])
      \<longrightarrow> find_ios_backup_file e backup_dir q
            = ([Enter PathResolver,
                Print (ExpectedFileNotFound (os_path_join backup_dir [take 2 fid, fid]))], Inr None))
   \<and> (snd (find_ios_backup_file e backup_dir q) = Inr (Some f) \<longrightarrow> os_path_exists e f)"
proof -
  have a: "\<not> os_path_exists e (os_path_abspath e (os_path_join backup_dir [''Manifest.db'']))
      \<longrightarrow> find_ios_backup_file e backup_dir q
            = ([Enter PathResolver, Print (ManifestNotFound backup_dir)], Inr None)"
    by (simp add: find_ios_backup_file_def)
  have b: "os_path_exists e (os_path_abspath e (os_path_join backup_dir [''Manifest.db'']))
      \<and> sqlite_db e (os_path_abspath e (os_path_join backup_dir [''Manifest.db'']))
          = ExecuteFails OperationalError
      \<longrightarrow> find_ios_backup_file e backup_dir q
            = ([Enter PathResolver, Print CouldNotQueryManifest], Inr None)"
    by (simp add: find_ios_backup_file_def)
  have c: "os_path_exists e (os_path_abspath e (os_path_join backup_dir [''Manifest.db'']))
      \<and> sqlite_db e (os_path_abspath e (os_path_join backup_dir [''Manifest.db''])) = Files tbl
      \<and> (\<forall>r\<in>set tbl. relativePath r \<noteq> q \<and> domain r @ ''-'' @ relativePath r \<noteq> q)
      \<longrightarrow> find_ios_backup_file e backup_dir q = ([Enter PathResolver], Inr None)"
    using select_fileID_Nil [of tbl q] by (auto simp: find_ios_backup_file_Files)
  have d: "os_path_exists e (os_path_abspath e (os_path_join backup_dir [''Manifest.db'']))
      \<and> sqlite_db e (os_path_abspath e (os_path_join backup_dir [''Manifest.db''])) = Files tbl
      \<and> select_fileID tbl q = fid # rest
      \<and> \<not> os_path_exists e (os_path_join backup_dir [take 2 fid, fid])
      \<longrightarrow> find_ios_backup_file e backup_dir q
            = ([Enter PathResolver,
                Print (ExpectedFileNotFound (os_path_join backup_dir [take 2 fid, fid]))], Inr None)"
    by (auto simp: find_ios_backup_file_Files)
  show ?thesis using a b c d find_ios_backup_file_Some_exists by blast
qed

lemma find_ios_backup_file_null_sample:
  "find_ios_backup_file (sample_env (sample_info ''12.1.2'') (Files sample_table)) ''/elsewhere'' ''Library/SMS/sms.db''
     = ([Enter PathResolver, Print (ManifestNotFound ''/elsewhere'')], Inr None)
   \<and> find_ios_backup_file (sample_env (sample_info ''12.1.2'') (ExecuteFails OperationalError)) ''/backup'' ''Library/SMS/sms.db''
     = ([Enter PathResolver, Print CouldNotQueryManifest], Inr None)
   \<and> find_ios_backup_file (sample_env (sample_info ''12.1.2'') (Files sample_table)) ''/backup'' ''Library/Notes/notes.sqlite''
     = ([Enter PathResolver], Inr None)
   \<and> find_ios_backup_file (sample_env (sample_info ''12.1.2'') (Files sample_table)) ''/backup''
       ''HomeDomain-Library/AddressBook/AddressBook.sqlitedb''
     = ([Enter PathResolver,
         Print (ExpectedFileNotFound ''/backup/31/31bb7ba8914766d4ba40d6dfb6113c8b614be442'')], Inr None)
   \<and> snd (find_ios_backup_file (sample_env (sample_info ''12.1.2'') (Files sample_table)) ''/backup''
       ''HomeDomain-Library/SMS/sms.db'')
     = Inr (Some ''/backup/3d/3d0d7e5fb2ce288813306e4d4636395e047a3d28'')
   \<and> os_path_exists (sample_env (sample_info ''12.1.2'') (Files sample_table))
       ''/backup/3d/3d0d7e5fb2ce288813306e4d4636395e047a3d28''"
proof -
  let ?e = "sample_env (sample_info ''12.1.2'') (Files sample_table)"
  let ?e2 = "sample_env (sample_info ''12.1.2'') (ExecuteFails OperationalError)"
  have s5: "snd (find_ios_backup_file ?e ''/backup'' ''HomeDomain-Library/SMS/sms.db'')
     = Inr (Some ''/backup/3d/3d0d7e5fb2ce288813306e4d4636395e047a3d28'')"
    by (simp add: find_ios_backup_file_def sample_env_def sample_table_def select_fileID_def
        os_path_exists_def os_path_join_def join_step_def)
  from find_ios_backup_file_null [where e = ?e and backup_dir = "''/backup''"
      and q = "''HomeDomain-Library/SMS/sms.db''"
      and f = "''/backup/3d/3d0d7e5fb2ce288813306e4d4636395e047a3d28''"] s5
  have 5: "os_path_exists ?e ''/backup/3d/3d0d7e5fb2ce288813306e4d4636395e047a3d28''"
    by blast
  have a: "\<not> os_path_exists ?e (os_path_abspath ?e (os_path_join ''/elsewhere'' [''Manifest.db'']))"
    by (simp add: sample_env_def os_path_exists_def os_path_join_def join_step_def)
  have c: "\<forall>r\<in>set sample_table. relativePath r \<noteq> ''Library/Notes/notes.sqlite''
      \<and> domain r @ ''-'' @ relativePath r \<noteq> ''Library/Notes/notes.sqlite''"
    by (simp add: sample_table_def)
  have d1: "select_fileID sample_table ''HomeDomain-Library/AddressBook/AddressBook.sqlitedb''
      = ''31bb7ba8914766d4ba40d6dfb6113c8b614be442'' # []"
    by (simp add: select_fileID_def sample_table_def)
  have j: "os_path_join ''/backup'' [take 2 ''31bb7ba8914766d4ba40d6dfb6113c8b614be442'',
         ''31bb7ba8914766d4ba40d6dfb6113c8b614be442'']
       = ''/backup/31/31bb7ba8914766d4ba40d6dfb6113c8b614be442''"
    by (simp add: os_path_join_def join_step_def)
  have d2: "\<not> os_path_exists ?e ''/backup/31/31bb7ba8914766d4ba40d6dfb6113c8b614be442''"
    by (simp add: sample_env_def os_path_exists_def)
  from find_ios_backup_file_null [of ?e "''/elsewhere''" "''Library/SMS/sms.db''"] a
  have 1: "find_ios_backup_file ?e ''/elsewhere'' ''Library/SMS/sms.db''
     = ([Enter PathResolver, Print (ManifestNotFound ''/elsewhere'')], Inr None)"
    by blast
  from find_ios_backup_file_null [of ?e2 "''/backup''" "''Library/SMS/sms.db''"]
    sample_manifest_exists [of "sample_info ''12.1.2''" "ExecuteFails OperationalError"]
    sample_manifest_db [of "sample_info ''12.1.2''" "ExecuteFails OperationalError"]
  have 2: "find_ios_backup_file ?e2 ''/backup'' ''Library/SMS/sms.db''
     = ([Enter PathResolver, Print CouldNotQueryManifest], Inr None)"
    by blast
  from find_ios_backup_file_null [of ?e "''/backup''" "''Library/Notes/notes.sqlite''" sample_table]
    sample_manifest_exists [of "sample_info ''12.1.2''" "Files sample_table"]
    sample_manifest_db [of "sample_info ''12.1.2''" "Files sample_table"] c
  have 3: "find_ios_backup_file ?e ''/backup'' ''Library/Notes/notes.sqlite'' = ([Enter PathResolver], Inr None)"
    by blast
  from find_ios_backup_file_null [of ?e "''/backup''"
      "''HomeDomain-Library/AddressBook/AddressBook.sqlitedb''" sample_table
      "''31bb7ba8914766d4ba40d6dfb6113c8b614be442''" "[]"]
    sample_manifest_exists [of "sample_info ''12.1.2''" "Files sample_table"]
    sample_manifest_db [of "sample_info ''12.1.2''" "Files sample_table"] d1 d2 j
  have 4: "find_ios_backup_file ?e ''/backup'' ''HomeDomain-Library/AddressBook/AddressBook.sqlitedb''
     = ([Enter PathResolver,
         Print (ExpectedFileNotFound ''/backup/31/31bb7ba8914766d4ba40d6dfb6113c8b614be442'')], Inr None)"
    by simp
  from 1 2 3 4 s5 5 show ?thesis by blast
qed

text \<open>
  Claim C4. The claim asks that the function return \<^verbatim>\<open>None\<close>, never an error, when
  \<^verbatim>\<open>Manifest.db\<close> is absent, when the manifest query fails, when no row matches and when the
  stored file of the matching row is missing, and that it return a path only if the file
  exists. Lemma \<open>find_ios_backup_file_null\<close> shows all of it for a query that raises
  \<^verbatim>\<open>sqlite3.OperationalError\<close>. The function does not do it for every failing query: the handler,
  whose message asks whether the directory is a valid backup, names
  \<^verbatim>\<open>sqlite3.OperationalError\<close> only, and on a \<^verbatim>\<open>Manifest.db\<close> that is not a database file
  \<^verbatim>\<open>cur.execute\<close> raises the superclass \<^verbatim>\<open>sqlite3.DatabaseError\<close>, which leaves the function
  uncaught. On a database without the table the same call reports the failure and returns
  \<^verbatim>\<open>None\<close>.
\<close>

theorem find_ios_backup_file_database_error:
  "find_ios_backup_file (sample_env (sample_info ''12.1.2'') (ExecuteFails DatabaseError))
       ''/backup'' ''Library/SMS/sms.db''
     = ([Enter PathResolver], Inl DatabaseError)
   \<and> find_ios_backup_file (sample_env (sample_info ''12.1.2'') (ExecuteFails OperationalError))
       ''/backup'' ''Library/SMS/sms.db''
     = ([Enter PathResolver, Print CouldNotQueryManifest], Inr None)"
  by (simp add: find_ios_backup_file_def sample_env_def os_path_exists_def os_path_join_def
      join_step_def)

section \<open>The bundle resolver\<close>

text \<open>
  Claim C2. Let \<^verbatim>\<open>Manifest.db\<close> exist in the backup directory and hold the table \<open>tbl\<close>. If some row
  has the identifier as its \<open>domain\<close>, the function returns, for every such row and in table
  order, the pair of the joined path \<open>backupDir/fileID[:2]/fileID\<close> and the \<open>relativePath\<close>.
  Otherwise it does the same for the rows whose \<open>domain\<close> is the identifier prefixed with
  \<^verbatim>\<open>AppDomain-\<close>, and returns \<^verbatim>\<open>None\<close> if there are none either. Whether any path other than
  \<^verbatim>\<open>Manifest.db\<close> exists on disk has no influence on the result or on what is printed.
\<close>

theorem get_app_folders_from_backup_rows:
  assumes "os_path_exists e (os_path_abspath e (os_path_join backup_dir [''Manifest.db'']))"
    and "sqlite_db e (os_path_abspath e (os_path_join backup_dir [''Manifest.db''])) = Files tbl"
  shows "snd (get_app_folders_from_backup e backup_dir b) =
      Inr (if [r \<leftarrow> tbl. domain r = b] \<noteq> [] then
             Some [(os_path_join backup_dir [take 2 (fileID r), fileID r], relativePath r).
                   r \<leftarrow> tbl, domain r = b]
           else if [r \<leftarrow> tbl. domain r = ''AppDomain-'' @ b] \<noteq> [] then
             Some [(os_path_join backup_dir [take 2 (fileID r), fileID r], relativePath r).
                   r \<leftarrow> tbl, domain r = ''AppDomain-'' @ b]
           else None)
    \<and> (\<forall>ex. ex (os_path_abspath e (os_path_join backup_dir [''Manifest.db'']))
             = fs_exists e (os_path_abspath e (os_path_join backup_dir [''Manifest.db''])) \<longrightarrow>
          get_app_folders_from_backup (e\<lparr>fs_exists := ex\<rparr>) backup_dir b
          = get_app_folders_from_backup e backup_dir b)"
proof -
  have m: "\<And>P. [(os_path_join backup_dir [take 2 (fileID r), fileID r], relativePath r). r \<leftarrow> tbl, P r]
      = map (\<lambda>(file_id, rel_path). (os_path_join backup_dir [take 2 file_id, file_id], rel_path))
          (map (\<lambda>r. (fileID r, relativePath r)) (filter P tbl))"
    by (induction tbl) auto
  have 1: "snd (get_app_folders_from_backup e backup_dir b) =
      Inr (if [r \<leftarrow> tbl. domain r = b] \<noteq> [] then
             Some [(os_path_join backup_dir [take 2 (fileID r), fileID r], relativePath r).
                   r \<leftarrow> tbl, domain r = b]
           else if [r \<leftarrow> tbl. domain r = ''AppDomain-'' @ b] \<noteq> [] then
             Some [(os_path_join backup_dir [take 2 (fileID r), fileID r], relativePath r).
                   r \<leftarrow> tbl, domain r = ''AppDomain-'' @ b]
           else None)"
    unfolding m using assms
    by (simp add: get_app_folders_from_backup_def select_by_domain_def Let_def)
  have 2: "\<forall>ex. ex (os_path_abspath e (os_path_join backup_dir [''Manifest.db'']))
             = fs_exists e (os_path_abspath e (os_path_join backup_dir [''Manifest.db''])) \<longrightarrow>
          get_app_folders_from_backup (e\<lparr>fs_exists := ex\<rparr>) backup_dir b
          = get_app_folders_from_backup e backup_dir b"
    by (simp add: get_app_folders_from_backup_def os_path_exists_def Let_def)
  from 1 2 show ?thesis by blast
qed

theorem get_app_folders_from_backup_rows_witness:
  "snd (get_app_folders_from_backup (sample_env (sample_info ''12.1.2'') (Files sample_table))
         ''/backup'' ''com.facebook.Facebook'')
     = Inr (Some [(''/backup/9f/9f2c41aa07'', ''Library/Preferences/com.facebook.Facebook.plist'')])
   \<and> \<not> os_path_exists (sample_env (sample_info ''12.1.2'') (Files sample_table)) ''/backup/9f/9f2c41aa07''
   \<and> snd (get_app_folders_from_backup (sample_env (sample_info ''12.1.2'') (Files sample_table))
         ''/backup'' ''HomeDomain'')
     = Inr (Some [(''/backup/3d/3d0d7e5fb2ce288813306e4d4636395e047a3d28'', ''Library/SMS/sms.db''),
                  (''/backup/31/31bb7ba8914766d4ba40d6dfb6113c8b614be442'',
                   ''Library/AddressBook/AddressBook.sqlitedb'')])
   \<and> snd (get_app_folders_from_backup (sample_env (sample_info ''12.1.2'') (Files sample_table))
         ''/backup'' ''com.example.absent'')
     = Inr None
   \<and> get_app_folders_from_backup
        ((sample_env (sample_info ''12.1.2'') (Files sample_table))
           \<lparr>fs_exists := (\<lambda>p. p = ''/backup/Manifest.db'')\<rparr>)
        ''/backup'' ''HomeDomain''
     = get_app_folders_from_backup (sample_env (sample_info ''12.1.2'') (Files sample_table))
        ''/backup'' ''HomeDomain''"
proof -
  let ?e = "sample_env (sample_info ''12.1.2'') (Files sample_table)"
  have same: "(\<lambda>p. p = ''/backup/Manifest.db'')
        (os_path_abspath ?e (os_path_join ''/backup'' [''Manifest.db'']))
      = fs_exists ?e (os_path_abspath ?e (os_path_join ''/backup'' [''Manifest.db'']))"
    by (simp add: sample_env_def os_path_join_def join_step_def)
  from get_app_folders_from_backup_rows [OF sample_manifest_exists sample_manifest_db,
      of "sample_info ''12.1.2''" sample_table "''HomeDomain''"]
  have indep: "\<forall>ex. ex (os_path_abspath ?e (os_path_join ''/backup'' [''Manifest.db'']))
             = fs_exists ?e (os_path_abspath ?e (os_path_join ''/backup'' [''Manifest.db''])) \<longrightarrow>
          get_app_folders_from_backup (?e\<lparr>fs_exists := ex\<rparr>) ''/backup'' ''HomeDomain''
          = get_app_folders_from_backup ?e ''/backup'' ''HomeDomain''"
    by (rule conjunct2)
  have 4: "get_app_folders_from_backup (?e\<lparr>fs_exists := (\<lambda>p. p = ''/backup/Manifest.db'')\<rparr>)
        ''/backup'' ''HomeDomain''
     = get_app_folders_from_backup ?e ''/backup'' ''HomeDomain''"
    using indep [rule_format, of "\<lambda>p. p = ''/backup/Manifest.db''"] same by simp
  have x: "\<not> os_path_exists ?e ''/backup/9f/9f2c41aa07''"
    by (simp add: sample_env_def os_path_exists_def)
  from get_app_folders_from_backup_rows [OF sample_manifest_exists sample_manifest_db,
      of "sample_info ''12.1.2''" sample_table "''com.facebook.Facebook''"]
  have 1: "snd (get_app_folders_from_backup ?e ''/backup'' ''com.facebook.Facebook'')
     = Inr (Some [(''/backup/9f/9f2c41aa07'', ''Library/Preferences/com.facebook.Facebook.plist'')])"
    by (simp add: sample_table_def os_path_join_def join_step_def)
  from get_app_folders_from_backup_rows [OF sample_manifest_exists sample_manifest_db,
      of "sample_info ''12.1.2''" sample_table "''HomeDomain''"]
  have 2: "snd (get_app_folders_from_backup ?e ''/backup'' ''HomeDomain'')
     = Inr (Some [(''/backup/3d/3d0d7e5fb2ce288813306e4d4636395e047a3d28'', ''Library/SMS/sms.db''),
                  (''/backup/31/31bb7ba8914766d4ba40d6dfb6113c8b614be442'',
                   ''Library/AddressBook/AddressBook.sqlitedb'')])"
    by (simp add: sample_table_def os_path_join_def join_step_def)
  from get_app_folders_from_backup_rows [OF sample_manifest_exists sample_manifest_db,
      of "sample_info ''12.1.2''" sample_table "''com.example.absent''"]
  have 3: "snd (get_app_folders_from_backup ?e ''/backup'' ''com.example.absent'') = Inr None"
    by (simp add: sample_table_def)
  from 1 2 3 4 x show ?thesis by blast
qed



section \<open>The command line\<close>

lemma is_backup_compatible_no_resolver:
  "entered (fst (is_backup_compatible e backup_dir)) = []"
  by (simp add: is_backup_compatible_def Let_def split: sum.splits)

lemma is_backup_compatible_True_silent:
  "is_backup_compatible e backup_dir = (t0, Inr (True, ver)) \<Longrightarrow> t0 = []"
  by (auto simp: is_backup_compatible_def Let_def split: if_splits sum.splits)





lemma find_ios_backup_file_Some_nonempty:
  "find_ios_backup_file e backup_dir q = (t1, Inr (Some f)) \<Longrightarrow> f \<noteq> []"
  using find_ios_backup_file_Some_exists [of e backup_dir q f] by (simp add: os_path_exists_def)

lemma get_app_folders_from_backup_Some_nonempty:
  "get_app_folders_from_backup e backup_dir b = (t1, Inr (Some fs)) \<Longrightarrow> fs \<noteq> []"
  by (auto simp: get_app_folders_from_backup_def Let_def split: if_splits manifest.splits)

lemma entered_append: "entered (s @ t) = entered s @ entered t"
  by (induction s rule: entered.induct) auto

lemma main_incompatible:
  "is_backup_compatible e (search_path a) = (t0, Inr (False, ver)) \<Longrightarrow>
   main e a = (t0 @ [Print (BackupNotSupported ver)], Exited (- 2))"
  by (simp add: main_def)

lemma main_path:
  "is_backup_compatible e (search_path a) = (t0, Inr (True, ver)) \<Longrightarrow> path a = Some q \<Longrightarrow>
   main e a =
     (case find_ios_backup_file e (search_path a) q of
        (t1, Inl x) \<Rightarrow> (t1, Raised x)
      | (t1, Inr None) \<Rightarrow> (t1 @ [Print FileNotFound], Exited (- 1))
      | (t1, Inr (Some f)) \<Rightarrow> (t1 @ [Print (FoundFile f)], Exited 0))"
  using is_backup_compatible_True_silent [of e "search_path a" t0 ver]
    find_ios_backup_file_Some_nonempty [of e "search_path a" q]
  by (auto simp: main_def split: prod.splits sum.splits option.splits)

lemma main_bundle:
  "is_backup_compatible e (search_path a) = (t0, Inr (True, ver)) \<Longrightarrow> path a = None \<Longrightarrow>
   bundle_arg a = Some b \<Longrightarrow>
   main e a =
     (case get_app_folders_from_backup e (search_path a) b of
        (t1, Inl x) \<Rightarrow> (t1, Raised x)
      | (t1, Inr None) \<Rightarrow> (t1 @ [Print NoPathsNotFound], Exited (- 1))
      | (t1, Inr (Some fs)) \<Rightarrow> (t1 @ [Print (FoundPaths fs)], Exited 0))"
  using is_backup_compatible_True_silent [of e "search_path a" t0 ver]
    get_app_folders_from_backup_Some_nonempty [of e "search_path a" b]
  by (auto simp: main_def split: prod.splits sum.splits option.splits)

lemma main_neither:
  "is_backup_compatible e (search_path a) = (t0, Inr (True, ver)) \<Longrightarrow> path a = None \<Longrightarrow>
   bundle_arg a = None \<Longrightarrow> main e a = ([], Returned)"
  using is_backup_compatible_True_silent [of e "search_path a" t0 ver]
  by (simp add: main_def)

lemma sample_gate_12:
  "is_backup_compatible (sample_env (sample_info ''12.1.2'') db) ''/backup''
     = ([], Inr (True, Some (Version 12 1 2)))"
  by (simp add: is_backup_compatible_def sample_env_def sample_info_def os_path_exists_def
      os_path_join_def join_step_def TARGET_BACKUP_INFO_KEY_def TARGET_BACKUP_MIN_VER_def
      iOSVersion_le_def iOSVersion_lt_def compare_fields_def
      py_int_def py_int_ascii_def is_ascii_def int_max_str_digits_def py_strip_def py_isspace_def py_unsigned_def is_digit_def digit_val_def)

lemma sample_gate_10:
  "is_backup_compatible (sample_env (sample_info ''10.0'') db) ''/backup''
     = ([], Inr (False, Some (Version 10 0 0)))"
  by (simp add: is_backup_compatible_def sample_env_def sample_info_def os_path_exists_def
      os_path_join_def join_step_def TARGET_BACKUP_INFO_KEY_def TARGET_BACKUP_MIN_VER_def
      iOSVersion_le_def iOSVersion_lt_def iOSVersion_eq_def compare_fields_def
      py_int_def py_int_ascii_def is_ascii_def int_max_str_digits_def py_strip_def py_isspace_def py_unsigned_def is_digit_def digit_val_def)

lemma sample_find_sms:
  "find_ios_backup_file (sample_env i (Files sample_table)) ''/backup'' ''Library/SMS/sms.db''
     = ([Enter PathResolver], Inr (Some ''/backup/3d/3d0d7e5fb2ce288813306e4d4636395e047a3d28''))"
  by (simp add: find_ios_backup_file_def sample_env_def sample_table_def select_fileID_def
      os_path_exists_def os_path_join_def join_step_def)

lemma sample_find_notes:
  "find_ios_backup_file (sample_env i (Files sample_table)) ''/backup'' ''Library/Notes/notes.sqlite''
     = ([Enter PathResolver], Inr None)"
  by (simp add: find_ios_backup_file_def sample_env_def sample_table_def select_fileID_def
      os_path_exists_def os_path_join_def join_step_def)

lemma sample_bundle_facebook:
  "get_app_folders_from_backup (sample_env i (Files sample_table)) ''/backup'' ''com.facebook.Facebook''
     = ([Enter BundleResolver],
        Inr (Some [(''/backup/9f/9f2c41aa07'', ''Library/Preferences/com.facebook.Facebook.plist'')]))"
  by (simp add: get_app_folders_from_backup_def sample_env_def sample_table_def
      select_by_domain_def os_path_exists_def os_path_join_def join_step_def)

lemma sample_bundle_absent:
  "get_app_folders_from_backup (sample_env i (Files sample_table)) ''/backup'' ''com.example.absent''
     = ([Enter BundleResolver, Print (NoFilesFound ''com.example.absent'')], Inr None)"
  by (simp add: get_app_folders_from_backup_def sample_env_def sample_table_def
      select_by_domain_def os_path_exists_def os_path_join_def join_step_def)

text \<open>
  Claim C9. When the version gate returns False, \<^verbatim>\<open>main\<close> prints the rejection and exits with
  \<open>-2\<close>, and no resolver is entered. When the gate returns True: with \<^verbatim>\<open>-d\<close> given, the exit code
  is 0 if the path resolver returns a path and \<open>-1\<close> if it returns \<^verbatim>\<open>None\<close>; with only \<^verbatim>\<open>-b\<close> given,
  the exit code is 0 if the bundle resolver returns paths and \<open>-1\<close> if it returns \<^verbatim>\<open>None\<close>; with
  neither given, \<^verbatim>\<open>main\<close> returns with nothing printed and no resolver entered, and the exit
  status is 0.
\<close>

theorem main_exit_codes:
  "(is_backup_compatible e (search_path a) = (t0, Inr (False, ver)) \<longrightarrow>
      main e a = (t0 @ [Print (BackupNotSupported ver)], Exited (- 2))
      \<and> exit_code (snd (main e a)) = - 2
      \<and> entered (fst (main e a)) = [])
   \<and> (is_backup_compatible e (search_path a) = (t0, Inr (True, ver)) \<and> path a = Some q
      \<and> find_ios_backup_file e (search_path a) q = (t1, Inr (Some f)) \<longrightarrow>
      main e a = (t1 @ [Print (FoundFile f)], Exited 0) \<and> exit_code (snd (main e a)) = 0)
   \<and> (is_backup_compatible e (search_path a) = (t0, Inr (True, ver)) \<and> path a = Some q
      \<and> find_ios_backup_file e (search_path a) q = (t1, Inr None) \<longrightarrow>
      main e a = (t1 @ [Print FileNotFound], Exited (- 1)) \<and> exit_code (snd (main e a)) = - 1)
   \<and> (is_backup_compatible e (search_path a) = (t0, Inr (True, ver)) \<and> path a = None
      \<and> bundle_arg a = Some b
      \<and> get_app_folders_from_backup e (search_path a) b = (t1, Inr (Some fs)) \<longrightarrow>
      main e a = (t1 @ [Print (FoundPaths fs)], Exited 0) \<and> exit_code (snd (main e a)) = 0)
   \<and> (is_backup_compatible e (search_path a) = (t0, Inr (True, ver)) \<and> path a = None
      \<and> bundle_arg a = Some b
      \<and> get_app_folders_from_backup e (search_path a) b = (t1, Inr None) \<longrightarrow>
      main e a = (t1 @ [Print NoPathsNotFound], Exited (- 1)) \<and> exit_code (snd (main e a)) = - 1)
   \<and> (is_backup_compatible e (search_path a) = (t0, Inr (True, ver)) \<and> path a = None
      \<and> bundle_arg a = None \<longrightarrow>
      main e a = ([], Returned) \<and> exit_code (snd (main e a)) = 0)"
proof -
  have 1: "is_backup_compatible e (search_path a) = (t0, Inr (False, ver)) \<longrightarrow>
      main e a = (t0 @ [Print (BackupNotSupported ver)], Exited (- 2))
      \<and> exit_code (snd (main e a)) = - 2
      \<and> entered (fst (main e a)) = []"
    using is_backup_compatible_no_resolver [of e "search_path a"]
    by (auto simp: main_incompatible entered_append)
  have 2: "is_backup_compatible e (search_path a) = (t0, Inr (True, ver)) \<and> path a = Some q
      \<and> find_ios_backup_file e (search_path a) q = (t1, Inr (Some f)) \<longrightarrow>
      main e a = (t1 @ [Print (FoundFile f)], Exited 0) \<and> exit_code (snd (main e a)) = 0"
    by (auto simp: main_path)
  have 3: "is_backup_compatible e (search_path a) = (t0, Inr (True, ver)) \<and> path a = Some q
      \<and> find_ios_backup_file e (search_path a) q = (t1, Inr None) \<longrightarrow>
      main e a = (t1 @ [Print FileNotFound], Exited (- 1)) \<and> exit_code (snd (main e a)) = - 1"
    by (auto simp: main_path)
  have 4: "is_backup_compatible e (search_path a) = (t0, Inr (True, ver)) \<and> path a = None
      \<and> bundle_arg a = Some b
      \<and> get_app_folders_from_backup e (search_path a) b = (t1, Inr (Some fs)) \<longrightarrow>
      main e a = (t1 @ [Print (FoundPaths fs)], Exited 0) \<and> exit_code (snd (main e a)) = 0"
    by (auto simp: main_bundle)
  have 5: "is_backup_compatible e (search_path a) = (t0, Inr (True, ver)) \<and> path a = None
      \<and> bundle_arg a = Some b
      \<and> get_app_folders_from_backup e (search_path a) b = (t1, Inr None) \<longrightarrow>
      main e a = (t1 @ [Print NoPathsNotFound], Exited (- 1)) \<and> exit_code (snd (main e a)) = - 1"
    by (auto simp: main_bundle)
  have 6: "is_backup_compatible e (search_path a) = (t0, Inr (True, ver)) \<and> path a = None
      \<and> bundle_arg a = None \<longrightarrow>
      main e a = ([], Returned) \<and> exit_code (snd (main e a)) = 0"
    by (auto simp: main_neither)
  from 1 2 3 4 5 6 show ?thesis by blast
qed

theorem main_exit_codes_witness:
  "main (sample_env (sample_info ''10.0'') (Files sample_table))
        (sample_args (Some ''Library/SMS/sms.db'') None)
     = ([Print (BackupNotSupported (Some (Version 10 0 0)))], Exited (- 2))
   \<and> main (sample_env (sample_info ''12.1.2'') (Files sample_table))
        (sample_args (Some ''Library/SMS/sms.db'') None)
     = ([Enter PathResolver,
         Print (FoundFile ''/backup/3d/3d0d7e5fb2ce288813306e4d4636395e047a3d28'')], Exited 0)
   \<and> main (sample_env (sample_info ''12.1.2'') (Files sample_table))
        (sample_args (Some ''Library/Notes/notes.sqlite'') None)
     = ([Enter PathResolver, Print FileNotFound], Exited (- 1))
   \<and> main (sample_env (sample_info ''12.1.2'') (Files sample_table))
        (sample_args None (Some ''com.facebook.Facebook''))
     = ([Enter BundleResolver,
         Print (FoundPaths [(''/backup/9f/9f2c41aa07'',
                             ''Library/Preferences/com.facebook.Facebook.plist'')])], Exited 0)
   \<and> main (sample_env (sample_info ''12.1.2'') (Files sample_table))
        (sample_args None (Some ''com.example.absent''))
     = ([Enter BundleResolver, Print (NoFilesFound ''com.example.absent''),
         Print NoPathsNotFound], Exited (- 1))
   \<and> main (sample_env (sample_info ''12.1.2'') (Files sample_table)) (sample_args None None)
     = ([], Returned)"
proof -
  let ?old = "sample_env (sample_info ''10.0'') (Files sample_table)"
  let ?new = "sample_env (sample_info ''12.1.2'') (Files sample_table)"
  have sp: "\<And>p b. search_path (sample_args p b) = ''/backup''"
    and pa: "\<And>p b. path (sample_args p b) = p"
    and ba: "\<And>p b. bundle_arg (sample_args p b) = b"
    by (simp_all add: sample_args_def)
  from main_exit_codes [where e = ?old and a = "sample_args (Some ''Library/SMS/sms.db'') None"
      and ?t0.0 = "[]" and ver = "Some (Version 10 0 0)"] sample_gate_10
  have 1: "main ?old (sample_args (Some ''Library/SMS/sms.db'') None)
     = ([Print (BackupNotSupported (Some (Version 10 0 0)))], Exited (- 2))"
    by (simp add: sp)
  from main_exit_codes [where e = ?new and a = "sample_args (Some ''Library/SMS/sms.db'') None"
      and ?t0.0 = "[]" and ver = "Some (Version 12 1 2)" and q = "''Library/SMS/sms.db''"
      and ?t1.0 = "[Enter PathResolver]"
      and f = "''/backup/3d/3d0d7e5fb2ce288813306e4d4636395e047a3d28''"]
    sample_gate_12 sample_find_sms
  have 2: "main ?new (sample_args (Some ''Library/SMS/sms.db'') None)
     = ([Enter PathResolver,
         Print (FoundFile ''/backup/3d/3d0d7e5fb2ce288813306e4d4636395e047a3d28'')], Exited 0)"
    by (simp add: sp pa)
  from main_exit_codes [where e = ?new and a = "sample_args (Some ''Library/Notes/notes.sqlite'') None"
      and ?t0.0 = "[]" and ver = "Some (Version 12 1 2)" and q = "''Library/Notes/notes.sqlite''"
      and ?t1.0 = "[Enter PathResolver]"]
    sample_gate_12 sample_find_notes
  have 3: "main ?new (sample_args (Some ''Library/Notes/notes.sqlite'') None)
     = ([Enter PathResolver, Print FileNotFound], Exited (- 1))"
    by (simp add: sp pa)
  from main_exit_codes [where e = ?new and a = "sample_args None (Some ''com.facebook.Facebook'')"
      and ?t0.0 = "[]" and ver = "Some (Version 12 1 2)" and b = "''com.facebook.Facebook''"
      and ?t1.0 = "[Enter BundleResolver]"
      and fs = "[(''/backup/9f/9f2c41aa07'', ''Library/Preferences/com.facebook.Facebook.plist'')]"]
    sample_gate_12 sample_bundle_facebook
  have 4: "main ?new (sample_args None (Some ''com.facebook.Facebook''))
     = ([Enter BundleResolver,
         Print (FoundPaths [(''/backup/9f/9f2c41aa07'',
                             ''Library/Preferences/com.facebook.Facebook.plist'')])], Exited 0)"
    by (simp add: sp pa ba)
  from main_exit_codes [where e = ?new and a = "sample_args None (Some ''com.example.absent'')"
      and ?t0.0 = "[]" and ver = "Some (Version 12 1 2)" and b = "''com.example.absent''"
      and ?t1.0 = "[Enter BundleResolver, Print (NoFilesFound ''com.example.absent'')]"]
    sample_gate_12 sample_bundle_absent
  have 5: "main ?new (sample_args None (Some ''com.example.absent''))
     = ([Enter BundleResolver, Print (NoFilesFound ''com.example.absent''),
         Print NoPathsNotFound], Exited (- 1))"
    by (simp add: sp pa ba)
  from main_exit_codes [where e = ?new and a = "sample_args None None"
      and ?t0.0 = "[]" and ver = "Some (Version 12 1 2)"] sample_gate_12
  have 6: "main ?new (sample_args None None) = ([], Returned)"
    by (simp add: sp pa ba)
  from 1 2 3 4 5 6 show ?thesis by blast
qed



text \<open>
  Claim C5. The claim asks that no exception leaves the program. Two do. On a well-formed
  \<^verbatim>\<open>Info.plist\<close> without the \<^verbatim>\<open>"Product Version"\<close> key the version gate raises
  \<^verbatim>\<open>AttributeError\<close>, which \<^verbatim>\<open>main\<close> does not catch. On a \<^verbatim>\<open>Manifest.db\<close> of the wrong schema the
  query of the bundle resolver raises \<^verbatim>\<open>sqlite3.OperationalError\<close>, and neither that function nor
  \<^verbatim>\<open>main\<close> has a handler, whereas the path resolver on the same database reports the failure
  and the program exits with \<open>-1\<close>.
\<close>

theorem main_raises:
  "main (sample_env (PyDict [''Device Name'' \<mapsto> PyStr ''iPhone'']) (Files sample_table))
        (sample_args None None)
     = ([], Raised AttributeError)
   \<and> main (sample_env (sample_info ''12.1.2'') (ExecuteFails OperationalError))
        (sample_args None (Some ''com.apple.MobileSMS''))
     = ([Enter BundleResolver], Raised OperationalError)
   \<and> main (sample_env (sample_info ''12.1.2'') (ExecuteFails OperationalError))
        (sample_args (Some ''Library/SMS/sms.db'') None)
     = ([Enter PathResolver, Print CouldNotQueryManifest, Print FileNotFound], Exited (- 1))"
  by (simp add: main_def sample_args_def is_backup_compatible_def find_ios_backup_file_def
      get_app_folders_from_backup_def sample_env_def sample_info_def os_path_exists_def
      os_path_join_def join_step_def TARGET_BACKUP_INFO_KEY_def TARGET_BACKUP_MIN_VER_def
      iOSVersion_le_def iOSVersion_lt_def compare_fields_def
      py_int_def py_int_ascii_def is_ascii_def int_max_str_digits_def py_strip_def py_isspace_def py_unsigned_def is_digit_def digit_val_def)

end
